theory Spec2Isabelle
  imports Main "HOL-Library.Multiset" "HOL-Library.Sublist"
begin

section \<open>Strings and the Task entity\<close>

text \<open>
  The front end is TypeScript: a string is a sequence of UTF-16 code units, and
  \<^verbatim>\<open>length\<close> counts code units. A code unit is modelled by its number.
  Messages shown to the user (\<^verbatim>\<open>"Title is required"\<close>) are kept as
  HOL strings: nothing computes on them.
\<close>

type_synonym js_string = "nat list"

text \<open>
  \<^verbatim>\<open>String.prototype.trim\<close> removes WhiteSpace and LineTerminator code
  points from both ends: TAB, LF, VT, FF, CR, SP, NBSP, U+1680, U+2000..U+200A,
  U+2028, U+2029, U+202F, U+205F, U+3000 and U+FEFF.
\<close>

definition is_white_space :: "nat \<Rightarrow> bool" where
  "is_white_space c =
     (c = 9 \<or> c = 10 \<or> c = 11 \<or> c = 12 \<or> c = 13 \<or> c = 32 \<or> c = 160 \<or>
      c = 5760 \<or> (8192 \<le> c \<and> c \<le> 8202) \<or> c = 8232 \<or> c = 8233 \<or>
      c = 8239 \<or> c = 8287 \<or> c = 12288 \<or> c = 65279)"

definition trim :: "js_string \<Rightarrow> js_string" where
  "trim s = rev (dropWhile is_white_space (rev (dropWhile is_white_space s)))"

text \<open>
  The Task of \<^verbatim>\<open>specs/database/schema.md\<close> (the SQLModel class and the
  \<^verbatim>\<open>tasks\<close> table) and of the front end's \<^verbatim>\<open>Task\<close> interface:
  the same seven fields. \<^verbatim>\<open>description\<close> is optional
  (\<^verbatim>\<open>Optional[str]\<close>, \<^verbatim>\<open>description?: string\<close>). Timestamps are
  readings of the wall clock, counted in microseconds.
\<close>

record task =
  task_id :: nat
  task_user_id :: string
  task_title :: js_string
  task_description :: "js_string option"
  task_completed :: bool
  task_created_at :: nat
  task_updated_at :: nat

text \<open>
  \<^verbatim>\<open>TaskCreate\<close>: the body of a create request and the object the task form
  submits (\<^verbatim>\<open>{ title, description? }\<close>).
\<close>

record task_create =
  create_title :: js_string
  create_description :: "js_string option"

section \<open>The tasks page (front end)\<close>

text \<open>
  \<^verbatim>\<open>TasksPage\<close> keeps the list of tasks and a filter, one of
  \<^verbatim>\<open>"all" | "active" | "completed"\<close>.
\<close>

datatype task_filter = Filter_all | Filter_active | Filter_completed

text \<open>
  \<^verbatim>\<open>
  const filteredTasks = tasks.filter((task) => {
    if (filter === "active") return !task.completed;
    if (filter === "completed") return task.completed;
    return true;
  });
  const activeCount = tasks.filter((t) => !t.completed).length;
  const completedCount = tasks.filter((t) => t.completed).length;
  \<close>
\<close>

definition filteredTasks :: "task_filter \<Rightarrow> task list \<Rightarrow> task list" where
  "filteredTasks flt tasks =
     filter (\<lambda>task.
        if flt = Filter_active then \<not> task_completed task
        else if flt = Filter_completed then task_completed task
        else True) tasks"

definition activeCount :: "task list \<Rightarrow> nat" where
  "activeCount tasks = length (filter (\<lambda>t. \<not> task_completed t) tasks)"

definition completedCount :: "task list \<Rightarrow> nat" where
  "completedCount tasks = length (filter (\<lambda>t. task_completed t) tasks)"

text \<open>
  \<^verbatim>\<open>TaskList\<close> splits the list it is given into the two groups it renders:
  \<^verbatim>\<open>
  const incompleteTasks = tasks.filter((task) => !task.completed);
  const completedTasks = tasks.filter((task) => task.completed);
  \<close>
\<close>

definition incompleteTasks :: "task list \<Rightarrow> task list" where
  "incompleteTasks tasks = filter (\<lambda>task. \<not> task_completed task) tasks"

definition completedTasks :: "task list \<Rightarrow> task list" where
  "completedTasks tasks = filter (\<lambda>task. task_completed task) tasks"

section \<open>The task form and the task item (front end)\<close>

text \<open>
  \<^verbatim>\<open>TaskForm\<close> holds \<^verbatim>\<open>formData = { title, description }\<close>, a
  \<^verbatim>\<open>loading\<close> flag and an \<^verbatim>\<open>error\<close> message. Its
  \<^verbatim>\<open>onSubmit\<close> property is a callback returning a promise: the promise
  resolves, or rejects with an \<^verbatim>\<open>Error\<close> carrying a message, or rejects
  with some other value.
\<close>

record form_data =
  form_title :: js_string
  form_description :: js_string

record form_state =
  formData :: form_data
  loading :: bool
  error :: string

datatype submit_result = Resolved | Rejected_Error string | Rejected_other

text \<open>
  \<^verbatim>\<open>
  const handleSubmit = async (e: React.FormEvent) => {
    e.preventDefault();
    setError("");
    if (!formData.title.trim()) {
      setError("Title is required");
      return;
    }
    setLoading(true);
    try {
      const submitData = {
        title: formData.title.trim(),
        description: formData.description.trim() || undefined,
      };
      await onSubmit(submitData);
      setFormData({ title: "", description: "" });
    } catch (err) {
      setError(err instanceof Error ? err.message : "Failed to save task");
    } finally {
      setLoading(false);
    }
  };
  \<close>
  The model returns the state of the form after the handler, and the object handed to
  \<^verbatim>\<open>onSubmit\<close> when the handler calls it (\<open>None\<close> when it does not).
  A JavaScript string is falsy exactly when it is empty.
\<close>

definition handleSubmit ::
  "(task_create \<Rightarrow> submit_result) \<Rightarrow> form_state \<Rightarrow> form_state \<times> task_create option" where
  "handleSubmit onSubmit st =
     (let st1 = st\<lparr>error := []\<rparr> in
      if trim (form_title (formData st1)) = []
      then (st1\<lparr>error := ''Title is required''\<rparr>, None)
      else
        let st2 = st1\<lparr>loading := True\<rparr>;
            submitData = \<lparr>create_title = trim (form_title (formData st2)),
                          create_description =
                            (if trim (form_description (formData st2)) = [] then None
                             else Some (trim (form_description (formData st2))))\<rparr>;
            st3 = (case onSubmit submitData of
                     Resolved \<Rightarrow> st2\<lparr>formData := \<lparr>form_title = [], form_description = []\<rparr>\<rparr>
                   | Rejected_Error message \<Rightarrow> st2\<lparr>error := message\<rparr>
                   | Rejected_other \<Rightarrow> st2\<lparr>error := ''Failed to save task''\<rparr>)
        in (st3\<lparr>loading := False\<rparr>, Some submitData))"

text \<open>A callback whose promise resolves, whatever it is given.\<close>

definition resolves :: "task_create \<Rightarrow> submit_result" where
  "resolves submitData = Resolved"

text \<open>
  \<^verbatim>\<open>TaskItem\<close> renders the description paragraph under a guard, and the
  "Updated:" stamp under another:
  \<^verbatim>\<open>
  {task.description && (<p ...>{task.description}</p>)}
  {task.updated_at !== task.created_at && (<span>Updated: ...</span>)}
  \<close>
  \<open>TaskItem_description\<close> is the text of the paragraph when it is rendered.
  \<^verbatim>\<open>undefined\<close>, \<^verbatim>\<open>null\<close> and the empty string are falsy.
\<close>

definition TaskItem_description :: "task \<Rightarrow> js_string option" where
  "TaskItem_description task =
     (case task_description task of
        None \<Rightarrow> None
      | Some d \<Rightarrow> if d = [] then None else Some d)"

definition TaskItem_shows_updated :: "task \<Rightarrow> bool" where
  "TaskItem_shows_updated task = (task_updated_at task \<noteq> task_created_at task)"

section \<open>The back end: routes and queries\<close>

text \<open>
  A route fails by raising
  \<^verbatim>\<open>HTTPException(status_code=..., detail=...)\<close>; 403 is Forbidden and 404 is
  Not Found.
\<close>

datatype http_exception = HTTPException nat string

text \<open>
  What a database session reads and writes: the rows of the \<^verbatim>\<open>tasks\<close>
  table, in insertion order, and the next value of the \<^verbatim>\<open>SERIAL\<close>
  sequence behind \<^verbatim>\<open>tasks.id\<close>. A fresh database has no rows and hands
  out 1 first. The column constraints of the table (\<^verbatim>\<open>VARCHAR(200)\<close>,
  \<^verbatim>\<open>NOT NULL\<close>) are the database's own and are not part of the Python code
  modelled here.
\<close>

record session =
  rows :: "task list"
  next_id :: nat

definition empty_session :: session where
  "empty_session = \<lparr>rows = [], next_id = 1\<rparr>"

text \<open>
  \<^verbatim>\<open>
  class Task(SQLModel, table=True):
      id: Optional[int] = Field(default=None, primary_key=True)
      user_id: uuid.UUID = Field(foreign_key="users.id", index=True)
      title: str = Field(max_length=200)
      description: Optional[str] = Field(default=None)
      completed: bool = Field(default=False)
      created_at: datetime = Field(default_factory=datetime.utcnow)
      updated_at: datetime = Field(default_factory=datetime.utcnow)
  \<close>
  \<^verbatim>\<open>created_at\<close> and \<^verbatim>\<open>updated_at\<close> have a default factory
  each, so building a Task calls \<^verbatim>\<open>datetime.utcnow\<close> twice, in field
  order: \<open>utcnow1\<close> and \<open>utcnow2\<close> are the two readings. \<open>pk\<close> is the
  identifier the database assigns at INSERT.
\<close>

definition Task :: "nat \<Rightarrow> string \<Rightarrow> task_create \<Rightarrow> nat \<Rightarrow> nat \<Rightarrow> task" where
  "Task pk user_id task_data utcnow1 utcnow2 =
     \<lparr>task_id = pk, task_user_id = user_id,
      task_title = create_title task_data,
      task_description = create_description task_data,
      task_completed = False,
      task_created_at = utcnow1, task_updated_at = utcnow2\<rparr>"

text \<open>
  \<^verbatim>\<open>
  async def create_task(user_id, task_data, session, authenticated_user_id):
      if user_id != authenticated_user_id:
          raise HTTPException(status_code=status.HTTP_403_FORBIDDEN, detail="Forbidden")
      task = Task(user_id=user_id, **task_data.dict())
      session.add(task)
      session.commit()
      session.refresh(task)
      return task
  \<close>
  \<open>authenticated_user_id\<close> is what \<^verbatim>\<open>verify_token\<close> returned: the
  subject of a verified token.
\<close>

definition create_task ::
  "string \<Rightarrow> task_create \<Rightarrow> session \<Rightarrow> string \<Rightarrow> nat \<Rightarrow> nat
     \<Rightarrow> (http_exception + task) \<times> session" where
  "create_task user_id task_data session authenticated_user_id utcnow1 utcnow2 =
     (if user_id \<noteq> authenticated_user_id
      then (Inl (HTTPException 403 ''Forbidden''), session)
      else
        let task = Task (next_id session) user_id task_data utcnow1 utcnow2
        in (Inr task,
            session\<lparr>rows := rows session @ [task], next_id := Suc (next_id session)\<rparr>))"

text \<open>
  \<^verbatim>\<open>
  @router.get("/api/{user_id}/tasks")
  async def get_tasks(user_id, authenticated_user_id = Depends(verify_token)):
      if user_id != authenticated_user_id:
          raise HTTPException(status_code=403, detail="Forbidden")
      # Return user's tasks
      ...
  \<close>
  The source elides the rest of the route; it is the parameter \<open>rest\<close>.
\<close>

definition get_tasks ::
  "string \<Rightarrow> string \<Rightarrow> (session \<Rightarrow> 'r) \<Rightarrow> session \<Rightarrow> http_exception + 'r" where
  "get_tasks user_id authenticated_user_id rest session =
     (if user_id \<noteq> authenticated_user_id
      then Inl (HTTPException 403 ''Forbidden'')
      else Inr (rest session))"

text \<open>
  \<^verbatim>\<open>
  def get_user_tasks(session, user_id):
      statement = select(Task).where(Task.user_id == user_id).order_by(Task.created_at.desc())
      tasks = session.exec(statement).all()
      return tasks
  \<close>
  Rows with the same \<^verbatim>\<open>created_at\<close> come in an order the database
  chooses; the model fixes one.
\<close>

definition get_user_tasks :: "session \<Rightarrow> string \<Rightarrow> task list" where
  "get_user_tasks session user_id =
     rev (sort_key task_created_at
            (filter (\<lambda>t. task_user_id t = user_id) (rows session)))"

text \<open>
  The query shared by \<^verbatim>\<open>update_task\<close> and \<^verbatim>\<open>delete_task\<close>:
  \<^verbatim>\<open>
  statement = select(Task).where(Task.id == task_id, Task.user_id == user_id)
  task = session.exec(statement).first()
  \<close>
\<close>

definition select_task :: "session \<Rightarrow> nat \<Rightarrow> string \<Rightarrow> task option" where
  "select_task session tid user_id =
     find (\<lambda>t. task_id t = tid \<and> task_user_id t = user_id) (rows session)"

text \<open>
  The keyword arguments of \<^verbatim>\<open>update_task\<close>: \<^verbatim>\<open>**kwargs\<close> is a
  dictionary from attribute names to values, and the function sets every item it is
  passed, whatever the name. An item is modelled as one attribute of Task with a value
  of the attribute's type; the list holds the items in the order the loop visits them.
\<close>

datatype keyword_argument =
    Arg_id nat
  | Arg_user_id string
  | Arg_title js_string
  | Arg_description "js_string option"
  | Arg_completed bool
  | Arg_created_at nat
  | Arg_updated_at nat

text \<open>\<^verbatim>\<open>setattr(task, key, value)\<close>\<close>

fun setattr :: "task \<Rightarrow> keyword_argument \<Rightarrow> task" where
  "setattr task (Arg_id v) = task\<lparr>task_id := v\<rparr>"
| "setattr task (Arg_user_id v) = task\<lparr>task_user_id := v\<rparr>"
| "setattr task (Arg_title v) = task\<lparr>task_title := v\<rparr>"
| "setattr task (Arg_description v) = task\<lparr>task_description := v\<rparr>"
| "setattr task (Arg_completed v) = task\<lparr>task_completed := v\<rparr>"
| "setattr task (Arg_created_at v) = task\<lparr>task_created_at := v\<rparr>"
| "setattr task (Arg_updated_at v) = task\<lparr>task_updated_at := v\<rparr>"

text \<open>
  \<^verbatim>\<open>for key, value in kwargs.items(): setattr(task, key, value)\<close>
\<close>

definition setattrs :: "keyword_argument list \<Rightarrow> task \<Rightarrow> task" where
  "setattrs kwargs task = foldl setattr task kwargs"

text \<open>
  \<^verbatim>\<open>
  class TaskUpdate(BaseModel):
      title: Optional[str] = None
      description: Optional[str] = None
      completed: Optional[bool] = None
  \<close>
  The body of an update request has these three fields and no other: keyword arguments
  taken from it name only title, description and completed.
\<close>

fun TaskUpdate_field :: "keyword_argument \<Rightarrow> bool" where
  "TaskUpdate_field (Arg_title v) = True"
| "TaskUpdate_field (Arg_description v) = True"
| "TaskUpdate_field (Arg_completed v) = True"
| "TaskUpdate_field (Arg_id v) = False"
| "TaskUpdate_field (Arg_user_id v) = False"
| "TaskUpdate_field (Arg_created_at v) = False"
| "TaskUpdate_field (Arg_updated_at v) = False"

text \<open>
  \<^verbatim>\<open>
  def update_task(session, task_id, user_id, **kwargs):
      statement = select(Task).where(Task.id == task_id, Task.user_id == user_id)
      task = session.exec(statement).first()
      if task:
          for key, value in kwargs.items():
              setattr(task, key, value)
          task.updated_at = datetime.utcnow()
          session.add(task)
          session.commit()
          session.refresh(task)
      return task
  \<close>
  The commit writes the row whose primary key is the task's.
\<close>

definition update_task ::
  "session \<Rightarrow> nat \<Rightarrow> string \<Rightarrow> keyword_argument list \<Rightarrow> nat
     \<Rightarrow> task option \<times> session" where
  "update_task session tid user_id kwargs utcnow =
     (case select_task session tid user_id of
        None \<Rightarrow> (None, session)
      | Some task \<Rightarrow>
          let task' = (setattrs kwargs task)\<lparr>task_updated_at := utcnow\<rparr>
          in (Some task',
              session\<lparr>rows := map (\<lambda>t. if task_id t = task_id task then task' else t)
                                  (rows session)\<rparr>))"

text \<open>
  \<^verbatim>\<open>
  def delete_task(session, task_id, user_id):
      statement = select(Task).where(Task.id == task_id, Task.user_id == user_id)
      task = session.exec(statement).first()
      if task:
          session.delete(task)
          session.commit()
          return True
      return False
  \<close>
\<close>

definition delete_task :: "session \<Rightarrow> nat \<Rightarrow> string \<Rightarrow> bool \<times> session" where
  "delete_task session tid user_id =
     (case select_task session tid user_id of
        None \<Rightarrow> (False, session)
      | Some task \<Rightarrow>
          (True, session\<lparr>rows := filter (\<lambda>t. task_id t \<noteq> task_id task) (rows session)\<rparr>))"

text \<open>
  Modelled from the spec: the Task Store's \<^verbatim>\<open>get\<close> operation, whose route is
  not among the repository's files at hand. Spec 4.1: "get(owner_id, task_id) returns
  the Task if it exists and belongs to owner_id; fails with NotFound otherwise".
  NotFound is the 404 of the back end's standard errors, with its detail
  \<^verbatim>\<open>"Task not found"\<close>; the lookup is the owner-scoped query above.
\<close>

definition get_task :: "session \<Rightarrow> string \<Rightarrow> nat \<Rightarrow> http_exception + task" where
  "get_task session owner_id tid =
     (case select_task session tid owner_id of
        None \<Rightarrow> Inl (HTTPException 404 ''Task not found'')
      | Some task \<Rightarrow> Inr task)"

text \<open>
  Modelled from the spec: the Task Store's \<^verbatim>\<open>toggleCompletion\<close> operation,
  whose route (\<^verbatim>\<open>PATCH /api/{user_id}/tasks/{id}/complete\<close>) is not among the
  repository's files at hand. Spec 4.1: "toggleCompletion(owner_id, task_id,
  explicit?: boolean): if explicit is provided, sets completed to that value; if
  omitted, flips the current value. Fails with NotFound per the same rule. Sets
  updated_at=now." The write goes through \<open>update_task\<close>.
\<close>

definition toggleCompletion ::
  "session \<Rightarrow> string \<Rightarrow> nat \<Rightarrow> bool option \<Rightarrow> nat \<Rightarrow> (http_exception + task) \<times> session" where
  "toggleCompletion session owner_id tid explicit utcnow =
     (case select_task session tid owner_id of
        None \<Rightarrow> (Inl (HTTPException 404 ''Task not found''), session)
      | Some task \<Rightarrow>
          let v = (case explicit of Some b \<Rightarrow> b | None \<Rightarrow> \<not> task_completed task);
              kwargs = [Arg_completed v]
          in (case update_task session tid owner_id kwargs utcnow of
                (Some task', session') \<Rightarrow> (Inr task', session')
              | (None, session') \<Rightarrow> (Inl (HTTPException 404 ''Task not found''), session')))"

section \<open>Histories of requests\<close>

text \<open>
  The states the store can reach: an empty database serves a sequence of requests, each
  through one of the functions above. A request carries the readings of the wall clock
  that its calls of \<^verbatim>\<open>datetime.utcnow\<close> return.
\<close>

datatype request =
    Create_request string task_create string nat nat
  | Update_request nat string "keyword_argument list" nat
  | Delete_request nat string

fun clock_readings :: "request \<Rightarrow> nat list" where
  "clock_readings (Create_request user_id task_data authenticated_user_id utcnow1 utcnow2) =
     [utcnow1, utcnow2]"
| "clock_readings (Update_request tid user_id kwargs utcnow) = [utcnow]"
| "clock_readings (Delete_request tid user_id) = []"

fun serve :: "session \<Rightarrow> request \<Rightarrow> session" where
  "serve session (Create_request user_id task_data authenticated_user_id utcnow1 utcnow2) =
     snd (create_task user_id task_data session authenticated_user_id utcnow1 utcnow2)"
| "serve session (Update_request tid user_id kwargs utcnow) =
     snd (update_task session tid user_id kwargs utcnow)"
| "serve session (Delete_request tid user_id) = snd (delete_task session tid user_id)"

definition serve_all :: "request list \<Rightarrow> session" where
  "serve_all requests = foldl serve empty_session requests"

text \<open>
  The clock does not run backwards over a history when the readings, in the order
  they are taken, never decrease.
\<close>

definition clock_monotone :: "request list \<Rightarrow> bool" where
  "clock_monotone requests = sorted (concat (map clock_readings requests))"

text \<open>
  The primary key of the table: identifiers are pairwise distinct, and all below the
  next value of the sequence.
\<close>

definition primary_key_ok :: "session \<Rightarrow> bool" where
  "primary_key_ok session =
     (distinct (map task_id (rows session)) \<and>
      list_all (\<lambda>t. task_id t < next_id session) (rows session))"

text \<open>
  An update request whose keyword arguments come from a \<^verbatim>\<open>TaskUpdate\<close> body.
\<close>

fun from_TaskUpdate :: "request \<Rightarrow> bool" where
  "from_TaskUpdate (Update_request tid user_id kwargs utcnow) =
     list_all TaskUpdate_field kwargs"
| "from_TaskUpdate (Create_request user_id task_data authenticated_user_id utcnow1 utcnow2) =
     True"
| "from_TaskUpdate (Delete_request tid user_id) = True"

text \<open>The invariant of the data model: no stored task was updated before it was created.\<close>

definition timestamps_ordered :: "session \<Rightarrow> bool" where
  "timestamps_ordered session =
     list_all (\<lambda>t. task_created_at t \<le> task_updated_at t) (rows session)"

section \<open>Filters and counters of the tasks page\<close>

lemma mset_filter_split:
  "mset (filter P xs) + mset (filter (\<lambda>x. \<not> P x) xs) = mset xs"
  by (induction xs) auto

lemma length_filter_split:
  "length (filter (\<lambda>x. \<not> P x) xs) + length (filter P xs) = length xs"
  by (induction xs) auto

text \<open>
  Claim C10. For every list of tasks held by the tasks page: the "active" filter
  selects exactly the tasks that are not completed, the "completed" filter exactly the
  completed ones, and the "all" filter returns the list unchanged; the two counters
  shown are the lengths of the two filtered lists and add up to the total; the two
  filtered lists partition the list (as multisets) and each keeps the relative order of
  the list (it is a subsequence). The two groups that TaskList renders are the same two
  lists.
\<close>

theorem tasks_page_filters_partition:
  "set (filteredTasks Filter_active tasks) = {t \<in> set tasks. task_completed t = False} \<and>
   set (filteredTasks Filter_completed tasks) = {t \<in> set tasks. task_completed t = True} \<and>
   filteredTasks Filter_all tasks = tasks \<and>
   activeCount tasks = length (filteredTasks Filter_active tasks) \<and>
   completedCount tasks = length (filteredTasks Filter_completed tasks) \<and>
   activeCount tasks + completedCount tasks = length tasks \<and>
   mset (filteredTasks Filter_active tasks) + mset (filteredTasks Filter_completed tasks)
     = mset tasks \<and>
   subseq (filteredTasks Filter_active tasks) tasks \<and>
   subseq (filteredTasks Filter_completed tasks) tasks \<and>
   incompleteTasks tasks = filteredTasks Filter_active tasks \<and>
   completedTasks tasks = filteredTasks Filter_completed tasks"
proof -
  have act: "filteredTasks Filter_active tasks = filter (\<lambda>t. \<not> task_completed t) tasks"
    by (simp add: filteredTasks_def)
  have com: "filteredTasks Filter_completed tasks = filter task_completed tasks"
    by (simp add: filteredTasks_def)
  have all: "filteredTasks Filter_all tasks = tasks"
    by (simp add: filteredTasks_def)
  have cnt: "activeCount tasks + completedCount tasks = length tasks"
    unfolding activeCount_def completedCount_def by (rule length_filter_split)
  have part: "mset (filteredTasks Filter_active tasks)
      + mset (filteredTasks Filter_completed tasks) = mset tasks"
    unfolding act com using mset_filter_split [of task_completed tasks]
    by (simp add: add.commute)
  show ?thesis
    using all cnt part
    by (auto simp: act com activeCount_def completedCount_def incompleteTasks_def
        completedTasks_def)
qed

section \<open>The authorization guard\<close>

text \<open>
  Claim C1. For a task request whose verified token has subject
  \<open>authenticated_user_id\<close> and whose path names the owner \<open>user_id\<close>: when
  the two are equal the route goes on (create_task returns the new task, get_tasks
  returns what the rest of the route computes); when they differ the route fails with
  403 Forbidden, the session is returned as it was, and the result does not depend on
  the rest of the route, so no operation on the store has run.
\<close>

theorem authorization_guard:
  "(user_id = authenticated_user_id \<longrightarrow>
      (\<exists>task session'.
          create_task user_id task_data session authenticated_user_id utcnow1 utcnow2
            = (Inr task, session')) \<and>
      get_tasks user_id authenticated_user_id rest session = Inr (rest session)) \<and>
   (user_id \<noteq> authenticated_user_id \<longrightarrow>
      create_task user_id task_data session authenticated_user_id utcnow1 utcnow2
        = (Inl (HTTPException 403 ''Forbidden''), session) \<and>
      get_tasks user_id authenticated_user_id rest session
        = Inl (HTTPException 403 ''Forbidden''))"
proof (cases "user_id = authenticated_user_id")
  case True
  then show ?thesis
    by (simp add: create_task_def get_tasks_def Let_def)
next
  case False
  then show ?thesis
    by (simp add: create_task_def get_tasks_def)
qed

theorem authorization_guard_witness:
  "create_task ''alice'' \<lparr>create_title = [66, 117, 121], create_description = None\<rparr>
       empty_session ''bob'' 1000 1000
     = (Inl (HTTPException 403 ''Forbidden''), empty_session) \<and>
   get_tasks ''alice'' ''bob'' (\<lambda>s. get_user_tasks s ''alice'') empty_session
     = Inl (HTTPException 403 ''Forbidden'') \<and>
   get_tasks ''alice'' ''alice'' (\<lambda>s. get_user_tasks s ''alice'') empty_session = Inr [] \<and>
   fst (create_task ''alice'' \<lparr>create_title = [66, 117, 121], create_description = None\<rparr>
       empty_session ''alice'' 1000 1000)
     = Inr \<lparr>task_id = 1, task_user_id = ''alice'', task_title = [66, 117, 121],
            task_description = None, task_completed = False,
            task_created_at = 1000, task_updated_at = 1000\<rparr>"
  using authorization_guard [of "''alice''" "''bob''"
      "\<lparr>create_title = [66, 117, 121], create_description = None\<rparr>" empty_session 1000 1000
      "\<lambda>s. get_user_tasks s ''alice''"]
    authorization_guard [of "''alice''" "''alice''"
      "\<lparr>create_title = [66, 117, 121], create_description = None\<rparr>" empty_session 1000 1000
      "\<lambda>s. get_user_tasks s ''alice''"]
  by (simp add: create_task_def Task_def empty_session_def get_user_tasks_def Let_def)

section \<open>Listing an owner's tasks\<close>

lemma sorted_wrt_rev_sort_key:
  "sorted_wrt (\<lambda>a b. f b \<le> f a) (rev (sort_key f xs))"
proof -
  have "sorted (map f (sort_key f xs))"
    by (rule sorted_sort_key)
  then have "sorted_wrt (\<lambda>a b. f a \<le> f b) (sort_key f xs)"
    by (simp add: sorted_map)
  then show ?thesis
    by (simp add: sorted_wrt_rev)
qed

text \<open>
  Claim C3. For every owner, get_user_tasks returns only tasks of that owner, all of
  them (the result is a permutation of the owner's rows), ordered by created_at
  descending, and the empty list when the owner has no task.
\<close>

theorem list_owner_newest_first:
  "(\<forall>t \<in> set (get_user_tasks session owner_id).
       task_user_id t = owner_id \<and> t \<in> set (rows session)) \<and>
   mset (get_user_tasks session owner_id)
     = mset (filter (\<lambda>t. task_user_id t = owner_id) (rows session)) \<and>
   sorted_wrt (\<lambda>a b. task_created_at b \<le> task_created_at a)
     (get_user_tasks session owner_id) \<and>
   ((\<forall>t \<in> set (rows session). task_user_id t \<noteq> owner_id) \<longrightarrow>
      get_user_tasks session owner_id = [])"
proof (intro conjI)
  show "\<forall>t \<in> set (get_user_tasks session owner_id).
       task_user_id t = owner_id \<and> t \<in> set (rows session)"
    by (simp add: get_user_tasks_def)
  show "mset (get_user_tasks session owner_id)
     = mset (filter (\<lambda>t. task_user_id t = owner_id) (rows session))"
    by (simp add: get_user_tasks_def)
  show "sorted_wrt (\<lambda>a b. task_created_at b \<le> task_created_at a)
     (get_user_tasks session owner_id)"
    unfolding get_user_tasks_def by (rule sorted_wrt_rev_sort_key)
  show "(\<forall>t \<in> set (rows session). task_user_id t \<noteq> owner_id) \<longrightarrow>
      get_user_tasks session owner_id = []"
  proof
    assume "\<forall>t \<in> set (rows session). task_user_id t \<noteq> owner_id"
    then have "filter (\<lambda>t. task_user_id t = owner_id) (rows session) = []"
      by (simp add: filter_empty_conv)
    then show "get_user_tasks session owner_id = []"
      by (simp add: get_user_tasks_def)
  qed
qed

theorem list_owner_newest_first_witness:
  "get_user_tasks
     (serve_all
      [Create_request ''alice'' \<lparr>create_title = [97], create_description = None\<rparr> ''alice'' 100 100,
       Create_request ''bob'' \<lparr>create_title = [98], create_description = None\<rparr> ''bob'' 200 200,
       Create_request ''alice'' \<lparr>create_title = [99], create_description = None\<rparr> ''alice'' 300 300])
     ''alice''
   = [\<lparr>task_id = 3, task_user_id = ''alice'', task_title = [99], task_description = None,
        task_completed = False, task_created_at = 300, task_updated_at = 300\<rparr>,
      \<lparr>task_id = 1, task_user_id = ''alice'', task_title = [97], task_description = None,
        task_completed = False, task_created_at = 100, task_updated_at = 100\<rparr>] \<and>
   get_user_tasks
     (serve_all
      [Create_request ''alice'' \<lparr>create_title = [97], create_description = None\<rparr> ''alice'' 100 100,
       Create_request ''bob'' \<lparr>create_title = [98], create_description = None\<rparr> ''bob'' 200 200,
       Create_request ''alice'' \<lparr>create_title = [99], create_description = None\<rparr> ''alice'' 300 300])
     ''carol'' = []"
  using list_owner_newest_first [of
      "serve_all
      [Create_request ''alice'' \<lparr>create_title = [97], create_description = None\<rparr> ''alice'' 100 100,
       Create_request ''bob'' \<lparr>create_title = [98], create_description = None\<rparr> ''bob'' 200 200,
       Create_request ''alice'' \<lparr>create_title = [99], create_description = None\<rparr> ''alice'' 300 300]"
      "''carol''"]
  by (simp add: serve_all_def empty_session_def create_task_def Task_def Let_def
      get_user_tasks_def)

section \<open>Trimming, the task form and the create route\<close>

lemma trim_eq_Nil_iff: "trim s = [] \<longleftrightarrow> (\<forall>c \<in> set s. is_white_space c)"
proof
  assume "trim s = []"
  then have all_rest: "\<forall>c \<in> set (dropWhile is_white_space s). is_white_space c"
    by (simp add: trim_def dropWhile_eq_Nil_conv)
  have "dropWhile is_white_space s = []"
  proof (rule ccontr)
    assume ne: "dropWhile is_white_space s \<noteq> []"
    then have "\<not> is_white_space (hd (dropWhile is_white_space s))"
      by (rule hd_dropWhile)
    moreover have "hd (dropWhile is_white_space s) \<in> set (dropWhile is_white_space s)"
      using ne by simp
    ultimately show False using all_rest by blast
  qed
  then show "\<forall>c \<in> set s. is_white_space c"
    by (simp add: dropWhile_eq_Nil_conv)
next
  assume "\<forall>c \<in> set s. is_white_space c"
  then have e: "dropWhile is_white_space s = []"
    by (simp add: dropWhile_eq_Nil_conv)
  show "trim s = []"
    unfolding trim_def e by simp
qed

lemma dropWhile_keeps:
  assumes "s \<noteq> []" and "\<not> P (hd s)"
  shows "dropWhile P (s @ b) = s @ b"
  using assms by (cases s) simp_all

lemma trim_padded:
  assumes pre: "\<forall>c \<in> set a. is_white_space c"
    and post: "\<forall>c \<in> set b. is_white_space c"
    and ne: "s \<noteq> []"
    and first: "\<not> is_white_space (hd s)"
    and final: "\<not> is_white_space (last s)"
  shows "trim (a @ s @ b) = s"
proof -
  have "dropWhile is_white_space (a @ s @ b) = dropWhile is_white_space (s @ b)"
    using pre by (simp add: dropWhile_append2)
  also have "\<dots> = s @ b"
    using ne first by (rule dropWhile_keeps)
  finally have front: "dropWhile is_white_space (a @ s @ b) = s @ b" .
  have "dropWhile is_white_space (rev b @ rev s) = dropWhile is_white_space (rev s)"
    using post by (intro dropWhile_append2) simp
  also have "\<dots> = rev s"
    using dropWhile_keeps [of "rev s" is_white_space "[]"] ne final
    by (simp add: hd_rev)
  finally have rear: "dropWhile is_white_space (rev (s @ b)) = rev s"
    by simp
  show ?thesis
    unfolding trim_def front rear by simp
qed


lemma handleSubmit_submits:
  assumes "trim (form_title (formData st)) \<noteq> []"
  shows "snd (handleSubmit onSubmit st) =
     Some \<lparr>create_title = trim (form_title (formData st)),
           create_description =
             (if trim (form_description (formData st)) = [] then None
              else Some (trim (form_description (formData st))))\<rparr>"
  using assms by (simp add: handleSubmit_def Let_def)

lemma create_task_stores:
  "create_task user_id task_data session user_id utcnow1 utcnow2 =
     (Inr (Task (next_id session) user_id task_data utcnow1 utcnow2),
      session\<lparr>rows := rows session @ [Task (next_id session) user_id task_data utcnow1 utcnow2],
              next_id := Suc (next_id session)\<rparr>)"
  by (simp add: create_task_def Let_def)

text \<open>
  Claim C5 says that a create request with a title of 201 characters, with an empty or
  white-space-only title, or with a description of more than 1000 characters fails with
  ValidationError. The create_task route checks nothing of its request body: it builds
  the Task from the title and description as they are and commits it. A request with a
  title of 201 characters and a description of 1001 characters is served with the new
  task, and so is a request whose title is two spaces; neither is trimmed.
\<close>

theorem create_task_validates_nothing:
  "fst (create_task ''alice''
          \<lparr>create_title = replicate 201 97, create_description = Some (replicate 1001 97)\<rparr>
          empty_session ''alice'' 1000 1000)
     = Inr \<lparr>task_id = 1, task_user_id = ''alice'', task_title = replicate 201 97,
            task_description = Some (replicate 1001 97), task_completed = False,
            task_created_at = 1000, task_updated_at = 1000\<rparr> \<and>
   length (replicate 201 (97::nat)) = 201 \<and> length (replicate 1001 (97::nat)) = 1001 \<and>
   fst (create_task ''alice'' \<lparr>create_title = [32, 32], create_description = None\<rparr>
          empty_session ''alice'' 1000 1000)
     = Inr \<lparr>task_id = 1, task_user_id = ''alice'', task_title = [32, 32],
            task_description = None, task_completed = False,
            task_created_at = 1000, task_updated_at = 1000\<rparr>"
  by (simp add: create_task_stores Task_def empty_session_def)

section \<open>Updating a task\<close>

lemma update_task_found:
  assumes "select_task session tid user_id = Some task"
  shows "update_task session tid user_id kwargs utcnow =
     (Some ((setattrs kwargs task)\<lparr>task_updated_at := utcnow\<rparr>),
      session\<lparr>rows := map (\<lambda>t. if task_id t = task_id task
                                then (setattrs kwargs task)\<lparr>task_updated_at := utcnow\<rparr> else t)
                          (rows session)\<rparr>)"
  using assms by (simp add: update_task_def Let_def)

lemma update_task_missing:
  assumes "select_task session tid user_id = None"
  shows "update_task session tid user_id kwargs utcnow = (None, session)"
  using assms by (simp add: update_task_def)


section \<open>An empty description is an absent description\<close>

text \<open>
  Claim C9. When the title is acceptable, the task form submits the description as
  absent exactly when it is empty or white space only, and as the trimmed, non-empty
  text otherwise; it never submits an empty string. The create_task route stores the
  description it is given, so the absent description is stored as absent. A task item
  whose description is absent renders no description paragraph, and one whose
  description is a non-empty text renders that text.
\<close>

theorem empty_description_is_absent:
  "(\<not> (\<forall>c \<in> set (form_title (formData st)). is_white_space c) \<longrightarrow>
      (\<exists>submitData.
          snd (handleSubmit onSubmit st) = Some submitData \<and>
          ((\<forall>c \<in> set (form_description (formData st)). is_white_space c) \<longrightarrow>
              create_description submitData = None) \<and>
          (\<not> (\<forall>c \<in> set (form_description (formData st)). is_white_space c) \<longrightarrow>
              create_description submitData = Some (trim (form_description (formData st)))) \<and>
          create_description submitData \<noteq> Some [] \<and>
          (\<exists>task session'.
              create_task user_id submitData session user_id utcnow1 utcnow2
                = (Inr task, session') \<and>
              task_description task = create_description submitData \<and>
              task \<in> set (rows session')))) \<and>
   TaskItem_description (task0\<lparr>task_description := None\<rparr>) = None \<and>
   (d \<noteq> [] \<longrightarrow> TaskItem_description (task0\<lparr>task_description := Some d\<rparr>) = Some d)"
proof (intro conjI impI)
  assume "\<not> (\<forall>c \<in> set (form_title (formData st)). is_white_space c)"
  then have ne: "trim (form_title (formData st)) \<noteq> []"
    by (simp add: trim_eq_Nil_iff)
  let ?d = "trim (form_description (formData st))"
  let ?data = "\<lparr>create_title = trim (form_title (formData st)),
                 create_description = (if ?d = [] then None else Some ?d)\<rparr>"
  have sub: "snd (handleSubmit onSubmit st) = Some ?data"
    using ne by (rule handleSubmit_submits)
  have blank: "(\<forall>c \<in> set (form_description (formData st)). is_white_space c) \<longrightarrow>
      create_description ?data = None"
    by (simp add: trim_eq_Nil_iff)
  have filled: "\<not> (\<forall>c \<in> set (form_description (formData st)). is_white_space c) \<longrightarrow>
      create_description ?data = Some ?d"
    using trim_eq_Nil_iff [of "form_description (formData st)"] by simp
  have never_empty: "create_description ?data \<noteq> Some []"
    by simp
  have stored: "\<exists>task session'.
      create_task user_id ?data session user_id utcnow1 utcnow2 = (Inr task, session') \<and>
      task_description task = create_description ?data \<and> task \<in> set (rows session')"
    by (simp add: create_task_stores Task_def)
  show "\<exists>submitData.
          snd (handleSubmit onSubmit st) = Some submitData \<and>
          ((\<forall>c \<in> set (form_description (formData st)). is_white_space c) \<longrightarrow>
              create_description submitData = None) \<and>
          (\<not> (\<forall>c \<in> set (form_description (formData st)). is_white_space c) \<longrightarrow>
              create_description submitData = Some (trim (form_description (formData st)))) \<and>
          create_description submitData \<noteq> Some [] \<and>
          (\<exists>task session'.
              create_task user_id submitData session user_id utcnow1 utcnow2
                = (Inr task, session') \<and>
              task_description task = create_description submitData \<and>
              task \<in> set (rows session'))"
    using sub blank filled never_empty stored by blast
next
  show "TaskItem_description (task0\<lparr>task_description := None\<rparr>) = None"
    by (simp add: TaskItem_description_def)
next
  assume "d \<noteq> []"
  then show "TaskItem_description (task0\<lparr>task_description := Some d\<rparr>) = Some d"
    by (simp add: TaskItem_description_def)
qed

theorem empty_description_is_absent_witness:
  "snd (handleSubmit resolves
         \<lparr>formData = \<lparr>form_title = [66, 117, 121], form_description = [32, 10, 9]\<rparr>,
          loading = False, error = []\<rparr>)
     = Some \<lparr>create_title = [66, 117, 121], create_description = None\<rparr> \<and>
   snd (handleSubmit resolves
         \<lparr>formData = \<lparr>form_title = [66, 117, 121], form_description = [32, 109, 32]\<rparr>,
          loading = False, error = []\<rparr>)
     = Some \<lparr>create_title = [66, 117, 121], create_description = Some [109]\<rparr> \<and>
   TaskItem_description
     \<lparr>task_id = 1, task_user_id = ''alice'', task_title = [66, 117, 121],
      task_description = None, task_completed = False,
      task_created_at = 1000, task_updated_at = 1000\<rparr> = None \<and>
   TaskItem_description
     \<lparr>task_id = 1, task_user_id = ''alice'', task_title = [66, 117, 121],
      task_description = Some [109], task_completed = False,
      task_created_at = 1000, task_updated_at = 1000\<rparr> = Some [109]"
proof -
  let ?blank = "\<lparr>formData = \<lparr>form_title = [66, 117, 121], form_description = [32, 10, 9]\<rparr>,
          loading = False, error = []\<rparr>"
  let ?filled = "\<lparr>formData = \<lparr>form_title = [66, 117, 121], form_description = [32, 109, 32]\<rparr>,
          loading = False, error = []\<rparr>"
  let ?t = "\<lparr>task_id = 1, task_user_id = ''alice'', task_title = [66, 117, 121],
      task_description = Some [109], task_completed = False,
      task_created_at = 1000, task_updated_at = 1000\<rparr>"
  have title: "\<not> (\<forall>c \<in> set [66, 117, 121]. is_white_space c)"
    by (simp add: is_white_space_def)
  have tt: "trim [66, 117, 121] = [66, 117, 121]"
    by (simp add: trim_def is_white_space_def)
  have blank: "\<forall>c \<in> set [32, 10, 9]. is_white_space c"
    by (simp add: is_white_space_def)
  have filled: "\<not> (\<forall>c \<in> set [32, 109, 32]. is_white_space c)"
    by (simp add: is_white_space_def)
  have td: "trim [32, 109, 32] = [109]"
    by (simp add: trim_def is_white_space_def)
  from empty_description_is_absent [where st = ?blank and onSubmit = resolves] title blank
  have "\<exists>submitData. snd (handleSubmit resolves ?blank) = Some submitData \<and>
      create_description submitData = None"
    by (simp, blast)
  then have one: "snd (handleSubmit resolves ?blank)
     = Some \<lparr>create_title = [66, 117, 121], create_description = None\<rparr>"
    by (simp add: handleSubmit_def Let_def tt)
  from empty_description_is_absent [where st = ?filled and onSubmit = resolves] title filled
  have "\<exists>submitData. snd (handleSubmit resolves ?filled) = Some submitData \<and>
      create_description submitData = Some (trim [32, 109, 32])"
    by (simp, blast)
  then have two: "snd (handleSubmit resolves ?filled)
     = Some \<lparr>create_title = [66, 117, 121], create_description = Some [109]\<rparr>"
    by (simp add: handleSubmit_def Let_def tt td)
  from empty_description_is_absent [where ?task0.0 = ?t and d = "[109]"]
  have three: "TaskItem_description (?t\<lparr>task_description := None\<rparr>) = None"
    and four: "TaskItem_description (?t\<lparr>task_description := Some [109]\<rparr>) = Some [109]"
    by simp_all
  from one two three four show ?thesis
    by simp
qed

section \<open>Not found: another owner's task and no task look the same\<close>

lemma select_task_Some:
  assumes "select_task session tid user_id = Some task"
  shows "task \<in> set (rows session) \<and> task_id task = tid \<and> task_user_id task = user_id"
  using assms unfolding select_task_def by (auto simp: find_Some_iff)

lemma select_task_None_iff:
  "select_task session tid user_id = None \<longleftrightarrow>
     (\<forall>t \<in> set (rows session). \<not> (task_id t = tid \<and> task_user_id t = user_id))"
  unfolding select_task_def by (auto simp: find_None_iff)

lemma setattr_keeps:
  assumes "TaskUpdate_field a"
  shows "task_id (setattr task a) = task_id task \<and>
         task_user_id (setattr task a) = task_user_id task \<and>
         task_created_at (setattr task a) = task_created_at task \<and>
         task_updated_at (setattr task a) = task_updated_at task"
  using assms by (cases a) simp_all

lemma setattrs_keeps:
  assumes "list_all TaskUpdate_field kwargs"
  shows "task_id (setattrs kwargs task) = task_id task \<and>
         task_user_id (setattrs kwargs task) = task_user_id task \<and>
         task_created_at (setattrs kwargs task) = task_created_at task \<and>
         task_updated_at (setattrs kwargs task) = task_updated_at task"
  using assms unfolding setattrs_def
  by (induction kwargs arbitrary: task) (simp_all add: setattr_keeps)

lemma find_map_replace:
  assumes "\<exists>x \<in> set xs. task_id x = tid"
    and "P new"
    and "\<And>t. P t \<Longrightarrow> task_id t = tid"
  shows "find P (map (\<lambda>t. if task_id t = tid then new else t) xs) = Some new"
  using assms(1)
proof (induction xs)
  case Nil
  then show ?case by simp
next
  case (Cons x xs)
  show ?case
  proof (cases "task_id x = tid")
    case True
    then show ?thesis using assms(2) by simp
  next
    case False
    then have "\<not> P x" using assms(3) by blast
    moreover have "\<exists>y \<in> set xs. task_id y = tid"
      using Cons.prems False by auto
    ultimately show ?thesis
      using Cons.IH False by simp
  qed
qed

lemma select_task_after_update:
  assumes found: "select_task session tid user_id = Some task"
    and fields: "list_all TaskUpdate_field kwargs"
  shows "select_task (snd (update_task session tid user_id kwargs utcnow)) tid user_id
     = Some ((setattrs kwargs task)\<lparr>task_updated_at := utcnow\<rparr>)"
proof -
  let ?new = "(setattrs kwargs task)\<lparr>task_updated_at := utcnow\<rparr>"
  note row = select_task_Some [OF found]
  have ex: "\<exists>x \<in> set (rows session). task_id x = tid"
    using row by blast
  have new_ok: "task_id ?new = tid \<and> task_user_id ?new = user_id"
    using row by (simp add: setattrs_keeps [OF fields])
  have "find (\<lambda>t. task_id t = tid \<and> task_user_id t = user_id)
          (map (\<lambda>t. if task_id t = tid then ?new else t) (rows session)) = Some ?new"
    using ex new_ok by (intro find_map_replace) simp_all
  then show ?thesis
    using row by (simp add: update_task_found [OF found] select_task_def)
qed

lemma select_task_other_owner:
  assumes pk: "primary_key_ok session"
    and row: "other \<in> set (rows session)"
    and ident: "task_id other = tid"
    and owner: "task_user_id other \<noteq> owner_id"
  shows "select_task session tid owner_id = None"
proof -
  have "\<not> (task_id t = tid \<and> task_user_id t = owner_id)" if "t \<in> set (rows session)" for t
  proof
    assume both: "task_id t = tid \<and> task_user_id t = owner_id"
    have "distinct (map task_id (rows session))"
      using pk by (simp add: primary_key_ok_def)
    then have "inj_on task_id (set (rows session))"
      by (simp add: distinct_map)
    then have "t = other"
      using that row ident both by (auto dest: inj_onD)
    then show False
      using both owner by simp
  qed
  then show ?thesis
    by (simp add: select_task_None_iff)
qed

lemma select_task_absent:
  assumes "\<forall>t \<in> set (rows session). task_id t \<noteq> tid"
  shows "select_task session tid owner_id = None"
  using assms by (simp add: select_task_None_iff)

lemma not_found_results:
  assumes "select_task session tid owner_id = None"
  shows "get_task session owner_id tid = Inl (HTTPException 404 ''Task not found'')"
    and "update_task session tid owner_id kwargs utcnow = (None, session)"
    and "toggleCompletion session owner_id tid explicit utcnow
           = (Inl (HTTPException 404 ''Task not found''), session)"
    and "delete_task session tid owner_id = (False, session)"
  using assms
  by (simp_all add: get_task_def update_task_def toggleCompletion_def delete_task_def)

text \<open>
  Claim C2. Take a store in which the task \<open>tid\<close> exists but belongs to another
  owner, and a store in which no task has the identifier \<open>tid\<close>. For the caller
  \<open>owner_id\<close>, get, update, toggleCompletion and delete give the same result in
  both: get and toggleCompletion fail with 404 "Task not found", update_task returns no
  task and delete_task returns False (the values its route reports as 404), and each
  store is left exactly as it was. The primary key of the table is assumed to hold in
  the first store.
\<close>

theorem not_found_hides_other_owners_task:
  assumes pk: "primary_key_ok sessionA"
    and row: "other \<in> set (rows sessionA)"
    and ident: "task_id other = tid"
    and owner: "task_user_id other \<noteq> owner_id"
    and absent: "\<forall>t \<in> set (rows sessionB). task_id t \<noteq> tid"
  shows "get_task sessionA owner_id tid = Inl (HTTPException 404 ''Task not found'') \<and>
         get_task sessionB owner_id tid = Inl (HTTPException 404 ''Task not found'') \<and>
         update_task sessionA tid owner_id kwargs utcnow = (None, sessionA) \<and>
         update_task sessionB tid owner_id kwargs utcnow = (None, sessionB) \<and>
         toggleCompletion sessionA owner_id tid explicit utcnow
           = (Inl (HTTPException 404 ''Task not found''), sessionA) \<and>
         toggleCompletion sessionB owner_id tid explicit utcnow
           = (Inl (HTTPException 404 ''Task not found''), sessionB) \<and>
         delete_task sessionA tid owner_id = (False, sessionA) \<and>
         delete_task sessionB tid owner_id = (False, sessionB)"
proof -
  have a: "select_task sessionA tid owner_id = None"
    using pk row ident owner by (rule select_task_other_owner)
  have b: "select_task sessionB tid owner_id = None"
    using absent by (rule select_task_absent)
  show ?thesis
    using not_found_results [OF a] not_found_results [OF b] by simp
qed

theorem not_found_hides_other_owners_task_witness:
  "get_task
     (serve_all
       [Create_request ''bob'' \<lparr>create_title = [98], create_description = None\<rparr> ''bob'' 100 100,
        Create_request ''alice'' \<lparr>create_title = [97], create_description = None\<rparr> ''alice'' 200 200])
     ''bob'' 2
     = Inl (HTTPException 404 ''Task not found'') \<and>
   get_task
     (serve_all
       [Create_request ''bob'' \<lparr>create_title = [98], create_description = None\<rparr> ''bob'' 100 100])
     ''bob'' 2
     = Inl (HTTPException 404 ''Task not found'') \<and>
   fst (update_task
     (serve_all
       [Create_request ''bob'' \<lparr>create_title = [98], create_description = None\<rparr> ''bob'' 100 100,
        Create_request ''alice'' \<lparr>create_title = [97], create_description = None\<rparr> ''alice'' 200 200])
     2 ''bob'' [Arg_title [120]] 300) = None \<and>
   fst (update_task
     (serve_all
       [Create_request ''bob'' \<lparr>create_title = [98], create_description = None\<rparr> ''bob'' 100 100])
     2 ''bob'' [Arg_title [120]] 300) = None \<and>
   fst (delete_task
     (serve_all
       [Create_request ''bob'' \<lparr>create_title = [98], create_description = None\<rparr> ''bob'' 100 100,
        Create_request ''alice'' \<lparr>create_title = [97], create_description = None\<rparr> ''alice'' 200 200])
     2 ''bob'') = False \<and>
   fst (delete_task
     (serve_all
       [Create_request ''bob'' \<lparr>create_title = [98], create_description = None\<rparr> ''bob'' 100 100])
     2 ''bob'') = False"
proof -
  let ?A = "serve_all
       [Create_request ''bob'' \<lparr>create_title = [98], create_description = None\<rparr> ''bob'' 100 100,
        Create_request ''alice'' \<lparr>create_title = [97], create_description = None\<rparr> ''alice'' 200 200]"
  let ?B = "serve_all
       [Create_request ''bob'' \<lparr>create_title = [98], create_description = None\<rparr> ''bob'' 100 100]"
  let ?other = "\<lparr>task_id = 2, task_user_id = ''alice'', task_title = [97],
      task_description = None, task_completed = False,
      task_created_at = 200, task_updated_at = 200\<rparr>"
  have rowsA: "rows ?A =
     [\<lparr>task_id = 1, task_user_id = ''bob'', task_title = [98],
        task_description = None, task_completed = False,
        task_created_at = 100, task_updated_at = 100\<rparr>, ?other]"
    and nextA: "next_id ?A = 3"
    by (simp_all add: serve_all_def empty_session_def create_task_def Task_def Let_def)
  have rowsB: "rows ?B =
     [\<lparr>task_id = 1, task_user_id = ''bob'', task_title = [98],
        task_description = None, task_completed = False,
        task_created_at = 100, task_updated_at = 100\<rparr>]"
    by (simp add: serve_all_def empty_session_def create_task_def Task_def Let_def)
  have pk: "primary_key_ok ?A"
    unfolding primary_key_ok_def rowsA nextA by simp
  have row: "?other \<in> set (rows ?A)"
    unfolding rowsA by simp
  have absent: "\<forall>t \<in> set (rows ?B). task_id t \<noteq> 2"
    unfolding rowsB by simp
  from not_found_hides_other_owners_task [OF pk row _ _ absent, of "''bob''"
      "[Arg_title [120]]" 300]
  show ?thesis
    by simp
qed

section \<open>Toggling completion\<close>

lemma toggleCompletion_found:
  assumes "select_task session tid owner_id = Some task"
  shows "toggleCompletion session owner_id tid explicit utcnow =
     (Inr (task\<lparr>task_completed := (case explicit of Some b \<Rightarrow> b | None \<Rightarrow> \<not> task_completed task),
                task_updated_at := utcnow\<rparr>),
      snd (update_task session tid owner_id
             [Arg_completed (case explicit of Some b \<Rightarrow> b | None \<Rightarrow> \<not> task_completed task)]
             utcnow))"
  using assms
  by (simp add: toggleCompletion_def Let_def update_task_found setattrs_def)

lemma select_task_after_toggle:
  assumes "select_task session tid owner_id = Some task"
  shows "select_task (snd (toggleCompletion session owner_id tid explicit utcnow)) tid owner_id
     = Some (task\<lparr>task_completed :=
                     (case explicit of Some b \<Rightarrow> b | None \<Rightarrow> \<not> task_completed task),
                   task_updated_at := utcnow\<rparr>)"
  using select_task_after_update [OF assms, of
      "[Arg_completed (case explicit of Some b \<Rightarrow> b | None \<Rightarrow> \<not> task_completed task)]"
      utcnow]
  by (simp add: toggleCompletion_found [OF assms] setattrs_def)

text \<open>
  Claim C7, as amended. For every existing task owned by the caller: toggleCompletion
  with an explicit value sets completed to exactly that value; with the value omitted
  it flips completed, so two successive toggles without a value restore the original
  completed flag; every successful call stores and returns the task with updated_at
  set to the call's reading of the clock, whatever the stored value was.
\<close>

theorem toggle_sets_or_flips_completed:
  assumes found: "select_task session tid owner_id = Some task"
  shows "(\<exists>task1 session1.
            toggleCompletion session owner_id tid (Some b) utcnow1 = (Inr task1, session1) \<and>
            task_completed task1 = b \<and>
            task_updated_at task1 = utcnow1 \<and>
            select_task session1 tid owner_id = Some task1) \<and>
         (\<exists>task1 session1 task2 session2.
            toggleCompletion session owner_id tid None utcnow1 = (Inr task1, session1) \<and>
            task_completed task1 = (\<not> task_completed task) \<and>
            task_updated_at task1 = utcnow1 \<and>
            select_task session1 tid owner_id = Some task1 \<and>
            toggleCompletion session1 owner_id tid None utcnow2 = (Inr task2, session2) \<and>
            task_completed task2 = task_completed task \<and>
            task_updated_at task2 = utcnow2 \<and>
            select_task session2 tid owner_id = Some task2)"
proof (intro conjI)
  let ?t1 = "task\<lparr>task_completed := b, task_updated_at := utcnow1\<rparr>"
  let ?s1 = "snd (toggleCompletion session owner_id tid (Some b) utcnow1)"
  have "toggleCompletion session owner_id tid (Some b) utcnow1 = (Inr ?t1, ?s1)"
    using toggleCompletion_found [OF found, of "Some b" utcnow1] by simp
  moreover have "select_task ?s1 tid owner_id = Some ?t1"
    using select_task_after_toggle [OF found, of "Some b" utcnow1] by simp
  moreover have "task_completed ?t1 = b" and "task_updated_at ?t1 = utcnow1"
    by simp_all
  ultimately show "\<exists>task1 session1.
            toggleCompletion session owner_id tid (Some b) utcnow1 = (Inr task1, session1) \<and>
            task_completed task1 = b \<and>
            task_updated_at task1 = utcnow1 \<and>
            select_task session1 tid owner_id = Some task1"
    by blast
next
  let ?t1 = "task\<lparr>task_completed := \<not> task_completed task, task_updated_at := utcnow1\<rparr>"
  let ?s1 = "snd (toggleCompletion session owner_id tid None utcnow1)"
  let ?t2 = "?t1\<lparr>task_completed := \<not> task_completed ?t1, task_updated_at := utcnow2\<rparr>"
  let ?s2 = "snd (toggleCompletion ?s1 owner_id tid None utcnow2)"
  have first: "toggleCompletion session owner_id tid None utcnow1 = (Inr ?t1, ?s1)"
    using toggleCompletion_found [OF found, of None utcnow1] by simp
  have found1: "select_task ?s1 tid owner_id = Some ?t1"
    using select_task_after_toggle [OF found, of None utcnow1] by simp
  have second: "toggleCompletion ?s1 owner_id tid None utcnow2 = (Inr ?t2, ?s2)"
    using toggleCompletion_found [OF found1, of None utcnow2] by simp
  have found2: "select_task ?s2 tid owner_id = Some ?t2"
    using select_task_after_toggle [OF found1, of None utcnow2] by simp
  have facts: "task_completed ?t1 = (\<not> task_completed task)"
    "task_updated_at ?t1 = utcnow1"
    "task_completed ?t2 = task_completed task"
    "task_updated_at ?t2 = utcnow2"
    by simp_all
  show "\<exists>task1 session1 task2 session2.
            toggleCompletion session owner_id tid None utcnow1 = (Inr task1, session1) \<and>
            task_completed task1 = (\<not> task_completed task) \<and>
            task_updated_at task1 = utcnow1 \<and>
            select_task session1 tid owner_id = Some task1 \<and>
            toggleCompletion session1 owner_id tid None utcnow2 = (Inr task2, session2) \<and>
            task_completed task2 = task_completed task \<and>
            task_updated_at task2 = utcnow2 \<and>
            select_task session2 tid owner_id = Some task2"
    using first found1 second found2 facts by blast
qed

theorem toggle_sets_or_flips_completed_witness:
  "fst (toggleCompletion
     (serve_all
       [Create_request ''alice'' \<lparr>create_title = [97], create_description = None\<rparr> ''alice'' 100 100])
     ''alice'' 1 (Some True) 200)
   = Inr \<lparr>task_id = 1, task_user_id = ''alice'', task_title = [97], task_description = None,
          task_completed = True, task_created_at = 100, task_updated_at = 200\<rparr> \<and>
   fst (toggleCompletion
     (serve_all
       [Create_request ''alice'' \<lparr>create_title = [97], create_description = None\<rparr> ''alice'' 100 100])
     ''alice'' 1 None 200)
   = Inr \<lparr>task_id = 1, task_user_id = ''alice'', task_title = [97], task_description = None,
          task_completed = True, task_created_at = 100, task_updated_at = 200\<rparr> \<and>
   fst (toggleCompletion
     (snd (toggleCompletion
       (serve_all
         [Create_request ''alice'' \<lparr>create_title = [97], create_description = None\<rparr> ''alice'' 100 100])
       ''alice'' 1 None 200))
     ''alice'' 1 None 300)
   = Inr \<lparr>task_id = 1, task_user_id = ''alice'', task_title = [97], task_description = None,
          task_completed = False, task_created_at = 100, task_updated_at = 300\<rparr>"
proof -
  let ?s = "serve_all
       [Create_request ''alice'' \<lparr>create_title = [97], create_description = None\<rparr> ''alice'' 100 100]"
  let ?t = "\<lparr>task_id = 1, task_user_id = ''alice'', task_title = [97], task_description = None,
          task_completed = False, task_created_at = 100, task_updated_at = 100\<rparr>"
  have found: "select_task ?s 1 ''alice'' = Some ?t"
    by (simp add: serve_all_def empty_session_def create_task_def Task_def Let_def
        select_task_def)
  note inst = toggle_sets_or_flips_completed [OF found, of True 200 300]
  have one: "fst (toggleCompletion ?s ''alice'' 1 (Some True) 200)
      = Inr (?t\<lparr>task_completed := True, task_updated_at := 200\<rparr>)"
    using toggleCompletion_found [OF found, of "Some True" 200] by simp
  have flip: "fst (toggleCompletion ?s ''alice'' 1 None 200)
      = Inr (?t\<lparr>task_completed := True, task_updated_at := 200\<rparr>)"
    using toggleCompletion_found [OF found, of None 200] by simp
  have found1: "select_task (snd (toggleCompletion ?s ''alice'' 1 None 200)) 1 ''alice''
      = Some (?t\<lparr>task_completed := True, task_updated_at := 200\<rparr>)"
    using select_task_after_toggle [OF found, of None 200] by simp
  have two: "fst (toggleCompletion (snd (toggleCompletion ?s ''alice'' 1 None 200))
      ''alice'' 1 None 300)
      = Inr (?t\<lparr>task_completed := False, task_updated_at := 300\<rparr>)"
    using toggleCompletion_found [OF found1, of None 300] by simp
  show ?thesis
    using inst one flip two by simp
qed

text \<open>
  The claim as stated fails where it says that each call advances updated_at: a toggle
  whose clock reading is the stored updated_at leaves updated_at as it was, and a
  toggle whose reading is earlier moves it back.
\<close>

theorem toggle_does_not_advance_updated_at:
  "rows (serve_all
       [Create_request ''alice'' \<lparr>create_title = [97], create_description = None\<rparr> ''alice'' 100 100])
   = [\<lparr>task_id = 1, task_user_id = ''alice'', task_title = [97], task_description = None,
       task_completed = False, task_created_at = 100, task_updated_at = 100\<rparr>] \<and>
   fst (toggleCompletion
     (serve_all
       [Create_request ''alice'' \<lparr>create_title = [97], create_description = None\<rparr> ''alice'' 100 100])
     ''alice'' 1 None 100)
   = Inr \<lparr>task_id = 1, task_user_id = ''alice'', task_title = [97], task_description = None,
          task_completed = True, task_created_at = 100, task_updated_at = 100\<rparr> \<and>
   fst (toggleCompletion
     (serve_all
       [Create_request ''alice'' \<lparr>create_title = [97], create_description = None\<rparr> ''alice'' 100 100])
     ''alice'' 1 None 50)
   = Inr \<lparr>task_id = 1, task_user_id = ''alice'', task_title = [97], task_description = None,
          task_completed = True, task_created_at = 100, task_updated_at = 50\<rparr>"
  by (simp add: serve_all_def empty_session_def create_task_def Task_def Let_def
      toggleCompletion_def update_task_def select_task_def setattrs_def)

section \<open>Timestamps over a history of requests\<close>

lemma serve_all_snoc: "serve_all (requests @ [request]) = serve (serve_all requests) request"
  by (simp add: serve_all_def)

lemma serve_row_cases:
  assumes "t' \<in> set (rows (serve session request))"
  shows "t' \<in> set (rows session) \<or>
    (\<exists>user_id task_data auth utcnow1 utcnow2.
        request = Create_request user_id task_data auth utcnow1 utcnow2 \<and>
        t' = Task (next_id session) user_id task_data utcnow1 utcnow2) \<or>
    (\<exists>tid user_id kwargs utcnow t.
        request = Update_request tid user_id kwargs utcnow \<and>
        t \<in> set (rows session) \<and>
        t' = (setattrs kwargs t)\<lparr>task_updated_at := utcnow\<rparr>)"
proof (cases request)
  case (Create_request user_id task_data auth utcnow1 utcnow2)
  then show ?thesis
    using assms by (auto simp: create_task_def Let_def split: if_splits)
next
  case (Update_request tid user_id kwargs utcnow)
  show ?thesis
  proof (cases "select_task session tid user_id")
    case None
    then show ?thesis
      using assms Update_request by (simp add: update_task_missing)
  next
    case (Some task)
    then have "task \<in> set (rows session)"
      by (simp add: select_task_Some)
    then show ?thesis
      using assms Update_request Some
      by (auto simp: update_task_found split: if_splits)
  qed
next
  case (Delete_request tid user_id)
  then show ?thesis
    using assms by (auto simp: delete_task_def split: option.splits)
qed

lemma primary_key_ok_serve:
  assumes pk: "primary_key_ok session"
    and typed: "from_TaskUpdate request"
  shows "primary_key_ok (serve session request)"
proof (cases request)
  case (Create_request user_id task_data auth utcnow1 utcnow2)
  then show ?thesis
    using pk
    by (auto simp: primary_key_ok_def create_task_def Let_def Task_def list_all_iff
        intro: less_SucI)
next
  case (Update_request tid user_id kwargs utcnow)
  then have fields: "list_all TaskUpdate_field kwargs"
    using typed by simp
  show ?thesis
  proof (cases "select_task session tid user_id")
    case None
    then show ?thesis
      using pk Update_request by (simp add: update_task_missing)
  next
    case (Some task)
    let ?new = "(setattrs kwargs task)\<lparr>task_updated_at := utcnow\<rparr>"
    have same_ids: "map task_id (map (\<lambda>t. if task_id t = task_id task then ?new else t)
        (rows session)) = map task_id (rows session)"
      by (induction "rows session") (auto simp: setattrs_keeps [OF fields])
    have "task \<in> set (rows session)"
      using Some by (simp add: select_task_Some)
    then have "task_id task < next_id session"
      using pk by (simp add: primary_key_ok_def list_all_iff)
    then show ?thesis
      using pk Update_request Some same_ids
      by (auto simp: primary_key_ok_def update_task_found list_all_iff
          setattrs_keeps [OF fields] simp del: map_map)
  qed
next
  case (Delete_request tid user_id)
  then show ?thesis
    using pk
    by (auto simp: primary_key_ok_def delete_task_def list_all_iff distinct_map_filter
        split: option.splits)
qed

lemma primary_key_ok_serve_all:
  assumes "list_all from_TaskUpdate requests"
  shows "primary_key_ok (serve_all requests)"
  using assms
proof (induction requests rule: rev_induct)
  case Nil
  show ?case
    by (simp add: serve_all_def empty_session_def primary_key_ok_def)
next
  case (snoc request requests)
  then show ?case
    by (simp add: serve_all_snoc primary_key_ok_serve)
qed

text \<open>What the clock readings so far say about the stored timestamps.\<close>

lemma timestamps_bounded:
  assumes "clock_monotone requests" and "list_all from_TaskUpdate requests"
  shows "\<forall>t \<in> set (rows (serve_all requests)).
           task_created_at t \<le> task_updated_at t \<and>
           task_created_at t \<in> set (concat (map clock_readings requests))"
  using assms
proof (induction requests rule: rev_induct)
  case Nil
  show ?case
    by (simp add: serve_all_def empty_session_def)
next
  case (snoc request requests)
  let ?past = "concat (map clock_readings requests)"
  from snoc.prems have sorted_all: "sorted (?past @ clock_readings request)"
    by (simp add: clock_monotone_def)
  then have past: "clock_monotone requests"
    and now_sorted: "sorted (clock_readings request)"
    and before: "\<forall>x \<in> set ?past. \<forall>y \<in> set (clock_readings request). x \<le> y"
    by (auto simp: clock_monotone_def sorted_append)
  from snoc.prems have typed_past: "list_all from_TaskUpdate requests"
    and typed_now: "from_TaskUpdate request"
    by simp_all
  note IH = snoc.IH [OF past typed_past]
  show ?case
  proof
    fix t'
    assume "t' \<in> set (rows (serve_all (requests @ [request])))"
    then have "t' \<in> set (rows (serve (serve_all requests) request))"
      by (simp add: serve_all_snoc)
    from serve_row_cases [OF this] consider
      (old) "t' \<in> set (rows (serve_all requests))"
      | (new) user_id task_data utcnow1 utcnow2 where
        "clock_readings request = [utcnow1, utcnow2]"
        "t' = Task (next_id (serve_all requests)) user_id task_data utcnow1 utcnow2"
      | (upd) kwargs utcnow t where
        "clock_readings request = [utcnow]"
        "list_all TaskUpdate_field kwargs"
        "t \<in> set (rows (serve_all requests))"
        "t' = (setattrs kwargs t)\<lparr>task_updated_at := utcnow\<rparr>"
      using typed_now by (elim disjE exE conjE) simp_all
    then show "task_created_at t' \<le> task_updated_at t' \<and>
        task_created_at t' \<in> set (concat (map clock_readings (requests @ [request])))"
    proof cases
      case old
      then show ?thesis using IH by simp
    next
      case new
      then show ?thesis using now_sorted by (simp add: Task_def)
    next
      case upd
      from upd(3) IH have "task_created_at t \<in> set ?past"
        by blast
      moreover have "utcnow \<in> set (clock_readings request)"
        using upd(1) by simp
      ultimately have "task_created_at t \<le> utcnow"
        using before by blast
      then show ?thesis
        using upd IH by (simp add: setattrs_keeps)
    qed
  qed
qed

lemma created_at_kept:
  assumes pk: "primary_key_ok session"
    and typed: "from_TaskUpdate request"
    and old: "t \<in> set (rows session)"
    and new: "t' \<in> set (rows (serve session request))"
    and same: "task_id t' = task_id t"
  shows "task_created_at t' = task_created_at t"
proof -
  have inj: "inj_on task_id (set (rows session))"
    using pk by (simp add: primary_key_ok_def distinct_map)
  have below: "task_id t < next_id session"
    using pk old by (simp add: primary_key_ok_def list_all_iff)
  from serve_row_cases [OF new] consider
    (old) "t' \<in> set (rows session)"
    | (new) user_id task_data utcnow1 utcnow2 where
      "t' = Task (next_id session) user_id task_data utcnow1 utcnow2"
    | (upd) kwargs utcnow t0 where
      "list_all TaskUpdate_field kwargs"
      "t0 \<in> set (rows session)" "t' = (setattrs kwargs t0)\<lparr>task_updated_at := utcnow\<rparr>"
    using typed by (elim disjE exE conjE) simp_all
  then show ?thesis
  proof cases
    case old
    then have "t' = t"
      using inj \<open>t \<in> set (rows session)\<close> same by (auto dest: inj_onD)
    then show ?thesis by simp
  next
    case new
    then have "task_id t' = next_id session"
      by (simp add: Task_def)
    then show ?thesis
      using same below by simp
  next
    case upd
    then have "task_id t0 = task_id t"
      using same by (simp add: setattrs_keeps)
    then have "t0 = t"
      using inj upd(2) \<open>t \<in> set (rows session)\<close> by (auto dest: inj_onD)
    then show ?thesis
      using upd by (simp add: setattrs_keeps)
  qed
qed

text \<open>
  update_task sets whatever attribute it is passed: with a created_at item among its
  keyword arguments it rewrites the creation time of the task.
\<close>

lemma update_task_sets_any_attribute:
  "fst (update_task
          (serve_all [Create_request ''alice''
             \<lparr>create_title = [97], create_description = None\<rparr> ''alice'' 1000 1000])
          1 ''alice'' [Arg_created_at 5] 2000)
     = Some \<lparr>task_id = 1, task_user_id = ''alice'', task_title = [97],
              task_description = None, task_completed = False,
              task_created_at = 5, task_updated_at = 2000\<rparr>"
  by (simp add: serve_all_def empty_session_def create_task_def Task_def Let_def
      update_task_def select_task_def setattrs_def)

text \<open>
  Claim C8, as amended. Take any history of create, update and delete requests served
  from the empty database, in which the clock readings never decrease and every update
  carries keyword arguments of a TaskUpdate body (title, description, completed). Then
  in the state reached, before and after the last request, no task has updated_at
  before created_at; the last request does not change the created_at of a task already
  stored; and when the last request is an update of a task its caller owns, the task is
  stored with updated_at set to the call's clock reading and created_at as it was.
\<close>

theorem updated_at_never_before_created_at:
  assumes clock: "clock_monotone (requests @ [request])"
    and typed: "list_all from_TaskUpdate (requests @ [request])"
  shows "timestamps_ordered (serve_all requests) \<and>
         timestamps_ordered (serve_all (requests @ [request])) \<and>
         (\<forall>t \<in> set (rows (serve_all requests)).
            \<forall>t' \<in> set (rows (serve_all (requests @ [request]))).
               task_id t' = task_id t \<longrightarrow> task_created_at t' = task_created_at t) \<and>
         (\<forall>tid user_id kwargs utcnow task.
            request = Update_request tid user_id kwargs utcnow \<and>
            select_task (serve_all requests) tid user_id = Some task \<longrightarrow>
              select_task (serve_all (requests @ [request])) tid user_id
                = Some ((setattrs kwargs task)\<lparr>task_updated_at := utcnow\<rparr>) \<and>
              task_updated_at ((setattrs kwargs task)\<lparr>task_updated_at := utcnow\<rparr>) = utcnow \<and>
              task_created_at ((setattrs kwargs task)\<lparr>task_updated_at := utcnow\<rparr>)
                = task_created_at task)"
proof (intro conjI)
  have past: "clock_monotone requests"
    using clock by (auto simp: clock_monotone_def sorted_append)
  have typed_past: "list_all from_TaskUpdate requests" and typed_now: "from_TaskUpdate request"
    using typed by simp_all
  show "timestamps_ordered (serve_all requests)"
    using timestamps_bounded [OF past typed_past]
    by (simp add: timestamps_ordered_def list_all_iff)
  show "timestamps_ordered (serve_all (requests @ [request]))"
    using timestamps_bounded [OF clock typed]
    by (simp add: timestamps_ordered_def list_all_iff)
  show "\<forall>t \<in> set (rows (serve_all requests)).
      \<forall>t' \<in> set (rows (serve_all (requests @ [request]))).
         task_id t' = task_id t \<longrightarrow> task_created_at t' = task_created_at t"
    using created_at_kept [OF primary_key_ok_serve_all [OF typed_past] typed_now]
    by (auto simp: serve_all_snoc)
  show "\<forall>tid user_id kwargs utcnow task.
      request = Update_request tid user_id kwargs utcnow \<and>
      select_task (serve_all requests) tid user_id = Some task \<longrightarrow>
        select_task (serve_all (requests @ [request])) tid user_id
          = Some ((setattrs kwargs task)\<lparr>task_updated_at := utcnow\<rparr>) \<and>
        task_updated_at ((setattrs kwargs task)\<lparr>task_updated_at := utcnow\<rparr>) = utcnow \<and>
        task_created_at ((setattrs kwargs task)\<lparr>task_updated_at := utcnow\<rparr>)
          = task_created_at task"
    using typed_now
    by (auto simp: serve_all_snoc select_task_after_update setattrs_keeps)
qed

theorem updated_at_never_before_created_at_witness:
  "clock_monotone
     ([Create_request ''alice'' \<lparr>create_title = [97], create_description = None\<rparr>
         ''alice'' 1000 1001,
       Update_request 1 ''alice'' [Arg_title [98]] 2000]
      @ [Update_request 1 ''alice'' [Arg_completed True] 3000]) \<and>
   rows (serve_all
     ([Create_request ''alice'' \<lparr>create_title = [97], create_description = None\<rparr>
         ''alice'' 1000 1001,
       Update_request 1 ''alice'' [Arg_title [98]] 2000]
      @ [Update_request 1 ''alice'' [Arg_completed True] 3000]))
   = [\<lparr>task_id = 1, task_user_id = ''alice'', task_title = [98], task_description = None,
       task_completed = True, task_created_at = 1000, task_updated_at = 3000\<rparr>] \<and>
   timestamps_ordered (serve_all
     ([Create_request ''alice'' \<lparr>create_title = [97], create_description = None\<rparr>
         ''alice'' 1000 1001,
       Update_request 1 ''alice'' [Arg_title [98]] 2000]
      @ [Update_request 1 ''alice'' [Arg_completed True] 3000])) \<and>
   select_task (serve_all
     ([Create_request ''alice'' \<lparr>create_title = [97], create_description = None\<rparr>
         ''alice'' 1000 1001,
       Update_request 1 ''alice'' [Arg_title [98]] 2000]
      @ [Update_request 1 ''alice'' [Arg_completed True] 3000])) 1 ''alice''
   = Some \<lparr>task_id = 1, task_user_id = ''alice'', task_title = [98], task_description = None,
       task_completed = True, task_created_at = 1000, task_updated_at = 3000\<rparr>"
proof -
  let ?past = "[Create_request ''alice'' \<lparr>create_title = [97], create_description = None\<rparr>
         ''alice'' 1000 1001,
       Update_request 1 ''alice'' [Arg_title [98]] 2000]"
  let ?last = "Update_request 1 ''alice'' [Arg_completed True] 3000"
  let ?before = "\<lparr>task_id = 1, task_user_id = ''alice'', task_title = [98],
      task_description = None, task_completed = False,
      task_created_at = 1000, task_updated_at = 2000\<rparr>"
  have mono: "clock_monotone (?past @ [?last])"
    by (simp add: clock_monotone_def)
  have typed: "list_all from_TaskUpdate (?past @ [?last])"
    by simp
  have past_rows: "rows (serve_all ?past) = [?before]"
    by (simp add: serve_all_def empty_session_def create_task_def Task_def Let_def
        update_task_def select_task_def setattrs_def)
  then have found: "select_task (serve_all ?past) 1 ''alice'' = Some ?before"
    by (simp add: select_task_def)
  note inst = updated_at_never_before_created_at [OF mono typed]
  from inst have ordered: "timestamps_ordered (serve_all (?past @ [?last]))"
    by blast
  from inst found
  have after: "select_task (serve_all (?past @ [?last])) 1 ''alice''
      = Some ((setattrs [Arg_completed True] ?before)\<lparr>task_updated_at := 3000\<rparr>)"
    by blast
  have now_rows: "rows (serve_all (?past @ [?last]))
      = [(setattrs [Arg_completed True] ?before)\<lparr>task_updated_at := 3000\<rparr>]"
    by (simp add: serve_all_def empty_session_def create_task_def Task_def Let_def
        update_task_def select_task_def setattrs_def)
  show ?thesis
    using mono ordered after now_rows by (simp add: setattrs_def)
qed

text \<open>
  The claim as stated fails: the timestamps are readings of
  \<^verbatim>\<open>datetime.utcnow\<close>, a wall clock, and when the reading taken by an update
  is earlier than the one taken at creation (the clock was set back in between), the
  state reached holds a task whose updated_at is before its created_at.
\<close>

theorem updated_at_before_created_at_when_clock_set_back:
  "rows (serve_all
     [Create_request ''alice'' \<lparr>create_title = [97], create_description = None\<rparr>
        ''alice'' 1000 1000,
      Update_request 1 ''alice'' [Arg_title [98]] 500])
   = [\<lparr>task_id = 1, task_user_id = ''alice'', task_title = [98], task_description = None,
       task_completed = False, task_created_at = 1000, task_updated_at = 500\<rparr>] \<and>
   \<not> timestamps_ordered (serve_all
     [Create_request ''alice'' \<lparr>create_title = [97], create_description = None\<rparr>
        ''alice'' 1000 1000,
      Update_request 1 ''alice'' [Arg_title [98]] 500])"
  by (simp add: serve_all_def empty_session_def create_task_def Task_def Let_def
      update_task_def select_task_def setattrs_def timestamps_ordered_def)

section \<open>Creating a task\<close>

text \<open>
  What create_task does for its owner in a store whose primary key holds: the new task
  gets an identifier no stored task has, is not completed, carries the two clock
  readings, and a get that follows returns it.
\<close>

lemma find_append_None:
  "find P xs = None \<Longrightarrow> find P (xs @ ys) = find P ys"
  by (induction xs) (auto split: if_splits)

lemma create_task_then_get_task:
  assumes pk: "primary_key_ok session"
  shows "\<exists>task session'.
      create_task user_id task_data session user_id utcnow1 utcnow2 = (Inr task, session') \<and>
      task_id task \<notin> task_id ` set (rows session) \<and>
      task_completed task = False \<and>
      task_created_at task = utcnow1 \<and> task_updated_at task = utcnow2 \<and>
      get_task session' user_id (task_id task) = Inr task"
proof -
  let ?task = "Task (next_id session) user_id task_data utcnow1 utcnow2"
  let ?session' = "session\<lparr>rows := rows session @ [?task],
      next_id := Suc (next_id session)\<rparr>"
  have fresh: "\<forall>t \<in> set (rows session). task_id t \<noteq> next_id session"
    using pk by (auto simp: primary_key_ok_def list_all_iff)
  then have "find (\<lambda>t. task_id t = next_id session \<and> task_user_id t = user_id)
      (rows session) = None"
    by (auto simp: find_None_iff)
  then have "select_task ?session' (next_id session) user_id = Some ?task"
    by (simp add: select_task_def find_append_None Task_def)
  then have "get_task ?session' user_id (task_id ?task) = Inr ?task"
    by (simp add: get_task_def Task_def)
  moreover have "task_id ?task \<notin> task_id ` set (rows session)"
    using fresh by (auto simp: Task_def)
  ultimately show ?thesis
    by (simp add: create_task_stores Task_def)
qed

text \<open>
  Claim C4 says that a created task has created_at equal to updated_at. The Task model
  gives each of the two fields its own default factory, so creation reads the clock
  twice; when the clock moves between the two readings the stored timestamps differ,
  and the task item then shows an "Updated:" stamp on a task that was never updated.
\<close>

theorem create_task_reads_the_clock_twice:
  "fst (create_task ''alice'' \<lparr>create_title = [66, 117, 121], create_description = None\<rparr>
          empty_session ''alice'' 1000 1001)
     = Inr \<lparr>task_id = 1, task_user_id = ''alice'', task_title = [66, 117, 121],
            task_description = None, task_completed = False,
            task_created_at = 1000, task_updated_at = 1001\<rparr> \<and>
   TaskItem_shows_updated
     \<lparr>task_id = 1, task_user_id = ''alice'', task_title = [66, 117, 121],
      task_description = None, task_completed = False,
      task_created_at = 1000, task_updated_at = 1001\<rparr>"
  by (simp add: create_task_stores Task_def empty_session_def TaskItem_shows_updated_def)

end
